theory Spec2Isabelle
  imports Complex_Main "HOL-Library.Product_Lexorder"
begin

section \<open>Python strings (ASCII) and the regular expressions of the two services\<close>

text \<open>
  The texts handled by \<^verbatim>\<open>ocr_service.py\<close> and \<^verbatim>\<open>email_service.py\<close> are Python
  \<^verbatim>\<open>str\<close> values. They are modelled as \<^typ>\<open>string\<close>, one \<^typ>\<open>char\<close> per code point,
  for ASCII texts: \<^verbatim>\<open>upper\<close>, \<^verbatim>\<open>lower\<close>, \<^verbatim>\<open>title\<close>, \<^verbatim>\<open>\d\<close>, \<^verbatim>\<open>\s\<close> and
  \<^verbatim>\<open>re.IGNORECASE\<close> are given their ASCII meaning.
\<close>

definition upper_letters :: string where
  "upper_letters = ''ABCDEFGHIJKLMNOPQRSTUVWXYZ''"

definition lower_letters :: string where
  "lower_letters = ''abcdefghijklmnopqrstuvwxyz''"

definition digits :: string where
  "digits = ''0123456789''"

definition whitespace :: string where
  \<comment> \<open>what \<^verbatim>\<open>\s\<close> matches: tab, newline, VT, FF, CR, FS, GS, RS, US and the blank\<close>
  "whitespace = [CHR 0x09, CHR 0x0A, CHR 0x0B, CHR 0x0C, CHR 0x0D,
                 CHR 0x1C, CHR 0x1D, CHR 0x1E, CHR 0x1F, CHR 0x20]"

fun char_in :: "char \<Rightarrow> string \<Rightarrow> bool" where
  "char_in c [] = False"
| "char_in c (x # xs) = (if c = x then True else char_in c xs)"

fun translate :: "string \<Rightarrow> string \<Rightarrow> char \<Rightarrow> char" where
  \<comment> \<open>the character at the position of \<open>c\<close> in the first alphabet, taken from the second\<close>
  "translate (x # xs) (y # ys) c = (if c = x then y else translate xs ys c)"
| "translate _ _ c = c"

definition is_upper :: "char \<Rightarrow> bool" where
  "is_upper c = char_in c upper_letters"

definition is_lower :: "char \<Rightarrow> bool" where
  "is_lower c = char_in c lower_letters"

definition is_digit :: "char \<Rightarrow> bool" where
  "is_digit c = char_in c digits"

definition lower_char :: "char \<Rightarrow> char" where
  "lower_char c = translate upper_letters lower_letters c"

definition upper_char :: "char \<Rightarrow> char" where
  "upper_char c = translate lower_letters upper_letters c"

definition str_lower :: "string \<Rightarrow> string" where
  "str_lower s = map lower_char s"

definition str_upper :: "string \<Rightarrow> string" where
  "str_upper s = map upper_char s"

text \<open>
  \<^verbatim>\<open>str.title()\<close>: a cased character is upper-cased when the character before it is
  not cased, and lower-cased otherwise. The flag says whether the previous character was cased.
\<close>

fun title_from :: "bool \<Rightarrow> string \<Rightarrow> string" where
  "title_from prev [] = []"
| "title_from prev (c # cs) =
     (if is_upper c \<or> is_lower c
      then (if prev then lower_char c else upper_char c) # title_from True cs
      else c # title_from False cs)"

definition str_title :: "string \<Rightarrow> string" where
  "str_title s = title_from False s"

text \<open>\<^verbatim>\<open>sub in s\<close> for strings.\<close>

fun str_in :: "string \<Rightarrow> string \<Rightarrow> bool" where
  "str_in sub [] = (sub = [])"
| "str_in sub (c # cs) = (take (length sub) (c # cs) = sub \<or> str_in sub cs)"

text \<open>
  Regular expressions, as far as the patterns of the two services (and of
  \<^verbatim>\<open>datetime.strptime\<close>) use them. \<open>OneOf cs\<close> is a character class, given by its
  characters; \<open>Rep m k r\<close> is \<^verbatim>\<open>r{m,m+k}\<close>.
\<close>

datatype regex =
    Eps
  | Lit char
  | OneOf string
  | Seq regex regex
  | Alt regex regex
  | Rep nat nat regex
  | Plus regex
  | Star regex

definition lit_match :: "bool \<Rightarrow> char \<Rightarrow> char \<Rightarrow> bool" where
  "lit_match ic a c =
     (if c = a then True else if ic then lower_char c = lower_char a else False)"

definition class_match :: "bool \<Rightarrow> string \<Rightarrow> char \<Rightarrow> bool" where
  "class_match ic cs c =
     (if char_in c cs then True
      else if ic then (if char_in (lower_char c) cs then True else char_in (upper_char c) cs)
      else False)"

definition one_char :: "(char \<Rightarrow> bool) \<Rightarrow> string \<Rightarrow> string list" where
  "one_char P s = (case s of [] \<Rightarrow> [] | c # cs \<Rightarrow> if P c then [cs] else [])"

text \<open>
  The backtracking matcher returns, for a pattern and a text, the remainders of the text after
  every way the pattern can match a prefix of it, in the order in which a backtracking engine
  tries them (greedy repetition: one more iteration before stopping; alternation: left first).
  The first remainder is the match \<^verbatim>\<open>re\<close> reports at this position.
\<close>

fun rep_greedy :: "(string \<Rightarrow> string list) \<Rightarrow> nat \<Rightarrow> nat \<Rightarrow> string \<Rightarrow> string list" where
  "rep_greedy f 0 0 s = [s]"
| "rep_greedy f 0 (Suc k) s = concat (map (rep_greedy f 0 k) (f s)) @ [s]"
| "rep_greedy f (Suc m) k s = concat (map (rep_greedy f m k) (f s))"

primrec rmatch :: "regex \<Rightarrow> bool \<Rightarrow> string \<Rightarrow> string list" where
  "rmatch Eps ic = (\<lambda>s. [s])"
| "rmatch (Lit a) ic = one_char (lit_match ic a)"
| "rmatch (OneOf cs) ic = one_char (class_match ic cs)"
| "rmatch (Seq a b) ic = (\<lambda>s. concat (map (rmatch b ic) (rmatch a ic s)))"
| "rmatch (Alt a b) ic = (\<lambda>s. rmatch a ic s @ rmatch b ic s)"
| "rmatch (Rep m k r) ic = rep_greedy (rmatch r ic) m k"
| "rmatch (Plus r) ic = (\<lambda>s. rep_greedy (rmatch r ic) 1 (length s) s)"
| "rmatch (Star r) ic = (\<lambda>s. rep_greedy (rmatch r ic) 0 (length s) s)"

text \<open>The text matched at the start of \<open>s\<close>, if any.\<close>

definition match_here :: "regex \<Rightarrow> bool \<Rightarrow> string \<Rightarrow> string option" where
  "match_here re ic s =
     (case rmatch re ic s of [] \<Rightarrow> None | r # _ \<Rightarrow> Some (take (length s - length r) s))"

text \<open>\<^verbatim>\<open>re.search(pattern, s).group(1)\<close> for a pattern that is one group: leftmost match.\<close>

fun re_search :: "regex \<Rightarrow> bool \<Rightarrow> string \<Rightarrow> string option" where
  "re_search re ic [] = match_here re ic []"
| "re_search re ic (c # cs) =
     (case match_here re ic (c # cs) of Some m \<Rightarrow> Some m | None \<Rightarrow> re_search re ic cs)"

text \<open>
  \<^verbatim>\<open>re.findall(pattern, s)\<close> for a pattern that is one group: the non-overlapping matches
  from left to right. None of the patterns below matches the empty string; after a match the
  scan goes on behind it (and at least one character further).
\<close>

function re_findall :: "regex \<Rightarrow> bool \<Rightarrow> string \<Rightarrow> string list" where
  "re_findall re ic [] = (case match_here re ic [] of None \<Rightarrow> [] | Some m \<Rightarrow> [m])"
| "re_findall re ic (c # cs) =
     (case match_here re ic (c # cs) of
        None \<Rightarrow> re_findall re ic cs
      | Some m \<Rightarrow> m # re_findall re ic (drop (length m - 1) cs))"
  by pat_completeness auto
termination
  by (relation "measure (\<lambda>(re, ic, s). length s)") auto

fun lits :: "string \<Rightarrow> regex" where
  "lits [] = Eps"
| "lits [c] = Lit c"
| "lits (c # cs) = Seq (Lit c) (lits cs)"

fun alts :: "regex list \<Rightarrow> regex" where
  "alts [] = Eps"
| "alts [r] = r"
| "alts (r # rs) = Alt r (alts rs)"

fun seqs :: "regex list \<Rightarrow> regex" where
  "seqs [] = Eps"
| "seqs [r] = r"
| "seqs (r # rs) = Seq r (seqs rs)"

definition Digit :: regex where
  \<comment> \<open>\<^verbatim>\<open>\d\<close>\<close>
  "Digit = OneOf digits"

definition Space :: regex where
  \<comment> \<open>\<^verbatim>\<open>\s\<close>\<close>
  "Space = OneOf whitespace"

definition Upper :: regex where
  \<comment> \<open>\<^verbatim>\<open>[A-Z]\<close>\<close>
  "Upper = OneOf upper_letters"

definition Lower :: regex where
  \<comment> \<open>\<^verbatim>\<open>[a-z]\<close>\<close>
  "Lower = OneOf lower_letters"


section \<open>Dates: \<^verbatim>\<open>datetime\<close> and \<^verbatim>\<open>datetime.strptime\<close>\<close>

text \<open>
  A naive \<^verbatim>\<open>datetime\<close> (no time zone, as \<^verbatim>\<open>strptime\<close> without \<^verbatim>\<open>%z\<close> and
  \<^verbatim>\<open>datetime.now()\<close> produce them). Python compares naive datetimes field by field.
\<close>

record datetime =
  dt_year :: nat
  dt_month :: nat
  dt_day :: nat
  dt_hour :: nat
  dt_minute :: nat
  dt_second :: nat
  dt_microsecond :: nat

definition dt_key :: "datetime \<Rightarrow> nat \<times> nat \<times> nat \<times> nat \<times> nat \<times> nat \<times> nat" where
  "dt_key d = (dt_year d, dt_month d, dt_day d, dt_hour d, dt_minute d, dt_second d,
               dt_microsecond d)"

definition dt_gt :: "datetime \<Rightarrow> datetime \<Rightarrow> bool" where
  \<comment> \<open>\<^verbatim>\<open>a > b\<close>\<close>
  "dt_gt a b = (dt_key b < dt_key a)"

definition mk_date :: "nat \<Rightarrow> nat \<Rightarrow> nat \<Rightarrow> datetime" where
  "mk_date y m d = \<lparr>dt_year = y, dt_month = m, dt_day = d, dt_hour = 0, dt_minute = 0,
                    dt_second = 0, dt_microsecond = 0\<rparr>"

definition is_leap :: "nat \<Rightarrow> bool" where
  "is_leap y = (y mod 4 = 0 \<and> (y mod 100 \<noteq> 0 \<or> y mod 400 = 0))"

definition days_in_month :: "nat \<Rightarrow> nat \<Rightarrow> nat" where
  "days_in_month y m =
     (if m = 2 then (if is_leap y then 29 else 28)
      else if m = 4 \<or> m = 6 \<or> m = 9 \<or> m = 11 then 30 else 31)"

definition int_of_str :: "string \<Rightarrow> nat" where
  \<comment> \<open>\<^verbatim>\<open>int(s)\<close> for a string of digits (a leading blank, which \<^verbatim>\<open>%d\<close> admits, is skipped)\<close>
  "int_of_str s = foldl (\<lambda>n c. 10 * n + ((of_char c :: nat) - 48)) 0 (filter is_digit s)"

text \<open>
  The directives used by \<^verbatim>\<open>_parse_date\<close>. \<^verbatim>\<open>strptime\<close> turns a format into a regular
  expression, one named group per directive, matches it at the start of the data (ignoring
  case), raises \<^verbatim>\<open>ValueError\<close> when nothing matches or when data remains behind the match,
  and raises \<^verbatim>\<open>ValueError\<close> again when the fields are not a date.
\<close>

datatype directive = Dir_m | Dir_d | Dir_Y | Dir_y | Dir_lit char

text \<open>
  The groups of \<^verbatim>\<open>_strptime\<close>: \<^verbatim>\<open>%m\<close> is \<^verbatim>\<open>1[0-2]|0[1-9]|[1-9]\<close>, \<^verbatim>\<open>%d\<close> is
  \<^verbatim>\<open>3[0-1]|[1-2]\d|0[1-9]|[1-9]| [1-9]\<close>, \<^verbatim>\<open>%Y\<close> is \<^verbatim>\<open>\d\d\d\d\<close> and \<^verbatim>\<open>%y\<close> is
  \<^verbatim>\<open>\d\d\<close>.
\<close>

fun directive_regex :: "directive \<Rightarrow> regex" where
  "directive_regex Dir_m =
     alts [Seq (Lit CHR ''1'') (OneOf ''012''),
           Seq (Lit CHR ''0'') (OneOf ''123456789''),
           OneOf ''123456789'']"
| "directive_regex Dir_d =
     alts [Seq (Lit CHR ''3'') (OneOf ''01''),
           Seq (OneOf ''12'') Digit,
           Seq (Lit CHR ''0'') (OneOf ''123456789''),
           OneOf ''123456789'',
           Seq (Lit CHR '' '') (OneOf ''123456789'')]"
| "directive_regex Dir_Y = Rep 4 0 Digit"
| "directive_regex Dir_y = Rep 2 0 Digit"
| "directive_regex (Dir_lit c) = Lit c"

text \<open>
  All ways the format matches a prefix of the data, in backtracking order: the text of each
  directive's group, and the data left over.
\<close>

fun fmt_match :: "directive list \<Rightarrow> string \<Rightarrow> ((directive \<times> string) list \<times> string) list" where
  "fmt_match [] s = [([], s)]"
| "fmt_match (d # ds) s =
     concat (map (\<lambda>r. map (\<lambda>(gs, rest). ((d, take (length s - length r) s) # gs, rest))
                            (fmt_match ds r))
                 (rmatch (directive_regex d) True s))"

definition group_year :: "(directive \<times> string) list \<Rightarrow> nat" where
  "group_year gs =
     (case map_of gs Dir_Y of
        Some y \<Rightarrow> int_of_str y
      | None \<Rightarrow>
          (case map_of gs Dir_y of
             Some y \<Rightarrow> (if int_of_str y \<le> 68 then int_of_str y + 2000 else int_of_str y + 1900)
           | None \<Rightarrow> 1900))"

definition group_field :: "(directive \<times> string) list \<Rightarrow> directive \<Rightarrow> nat" where
  "group_field gs d = (case map_of gs d of Some v \<Rightarrow> int_of_str v | None \<Rightarrow> 1)"

definition strptime :: "string \<Rightarrow> directive list \<Rightarrow> datetime option" where
  \<comment> \<open>\<open>None\<close> is \<^verbatim>\<open>ValueError\<close>\<close>
  "strptime date_str fmt =
     (case fmt_match fmt date_str of
        [] \<Rightarrow> None
      | (gs, rest) # _ \<Rightarrow>
          if rest \<noteq> [] then None
          else
            (let year = group_year gs; month = group_field gs Dir_m; day = group_field gs Dir_d
             in if 1 \<le> year \<and> 1 \<le> month \<and> month \<le> 12 \<and> 1 \<le> day
                   \<and> day \<le> days_in_month year month
                then Some (mk_date year month day) else None))"

section \<open>The OCR service (\<^verbatim>\<open>ocr_service.py\<close>)\<close>

subsection \<open>\<^verbatim>\<open>_parse_date\<close>\<close>

definition date_formats :: "directive list list" where
  "date_formats =
     [ [Dir_m, Dir_lit CHR ''/'', Dir_d, Dir_lit CHR ''/'', Dir_Y],
       [Dir_m, Dir_lit CHR ''/'', Dir_d, Dir_lit CHR ''/'', Dir_y],
       [Dir_d, Dir_lit CHR ''/'', Dir_m, Dir_lit CHR ''/'', Dir_Y],
       [Dir_d, Dir_lit CHR ''/'', Dir_m, Dir_lit CHR ''/'', Dir_y],
       [Dir_Y, Dir_lit CHR ''-'', Dir_m, Dir_lit CHR ''-'', Dir_d],
       [Dir_d, Dir_lit CHR ''-'', Dir_m, Dir_lit CHR ''-'', Dir_Y] ]"

fun try_formats :: "string \<Rightarrow> directive list list \<Rightarrow> datetime option" where
  "try_formats date_str [] = None"
| "try_formats date_str (fmt # fmts) =
     (case strptime date_str fmt of Some d \<Rightarrow> Some d | None \<Rightarrow> try_formats date_str fmts)"

definition parse_date :: "string \<Rightarrow> datetime option" where
  "parse_date date_str = try_formats date_str date_formats"

subsection \<open>\<^verbatim>\<open>_parse_stamp_text\<close>\<close>

definition sep :: regex where
  \<comment> \<open>\<^verbatim>\<open>[/-]\<close>\<close>
  "sep = OneOf ''/-''"

definition stamp_date_pattern :: regex where
  \<comment> \<open>\<^verbatim>\<open>(\d{1,2}[/-]\d{1,2}[/-]\d{2,4})\<close>\<close>
  "stamp_date_pattern = seqs [Rep 1 1 Digit, sep, Rep 1 1 Digit, sep, Rep 2 2 Digit]"

definition airport_code_pattern :: regex where
  \<comment> \<open>\<^verbatim>\<open>([A-Z]{3})\<close>\<close>
  "airport_code_pattern = Rep 3 0 Upper"

definition country_pattern :: regex where
  "country_pattern =
     alts (map lits [''UNITED STATES'', ''CANADA'', ''MEXICO'', ''UNITED KINGDOM'', ''FRANCE'',
                     ''GERMANY'', ''ITALY'', ''SPAIN'', ''JAPAN'', ''CHINA'', ''AUSTRALIA''])"

definition city_pattern :: regex where
  \<comment> \<open>\<^verbatim>\<open>([A-Z][a-z]+(?:\s+[A-Z][a-z]+)*)\<close>\<close>
  "city_pattern =
     seqs [Upper, Plus Lower,
           Star (seqs [Plus Space, Upper, Plus Lower])]"

text \<open>
  The dictionary \<^verbatim>\<open>extracted_data\<close>. Its keys are fixed by the code, and so is the type of
  the value under each key; a field is \<open>None\<close> when the key is absent. The value under a date
  key is what \<^verbatim>\<open>_parse_date\<close> returned, which may be Python's \<^verbatim>\<open>None\<close>.
\<close>

record stamp_dict =
  sd_entry_date :: "datetime option option"
  sd_exit_date :: "datetime option option"
  sd_country :: "string option"
  sd_city :: "string option"
  sd_stamp_type :: "string option"
  sd_airport_code :: "string option"

definition empty_stamp_dict :: stamp_dict where
  "empty_stamp_dict = \<lparr>sd_entry_date = None, sd_exit_date = None, sd_country = None,
     sd_city = None, sd_stamp_type = None, sd_airport_code = None\<rparr>"

definition mentions_entry :: "string \<Rightarrow> bool" where
  "mentions_entry text = (str_in ''ENTRY'' (str_upper text) \<or> str_in ''ARRIVAL'' (str_upper text))"

definition mentions_exit :: "string \<Rightarrow> bool" where
  "mentions_exit text = (str_in ''EXIT'' (str_upper text) \<or> str_in ''DEPARTURE'' (str_upper text))"

definition extract_dates :: "string \<Rightarrow> stamp_dict \<Rightarrow> stamp_dict" where
  "extract_dates text d =
     (case re_findall stamp_date_pattern False text of
        [] \<Rightarrow> d
      | date0 # _ \<Rightarrow>
          if mentions_entry text then d\<lparr>sd_entry_date := Some (parse_date date0)\<rparr>
          else if mentions_exit text then d\<lparr>sd_exit_date := Some (parse_date date0)\<rparr>
          else d\<lparr>sd_entry_date := Some (parse_date date0)\<rparr>)"

definition extract_country :: "string \<Rightarrow> stamp_dict \<Rightarrow> stamp_dict" where
  "extract_country text d =
     (case re_search country_pattern True text of
        None \<Rightarrow> d
      | Some m \<Rightarrow> d\<lparr>sd_country := Some (str_title m)\<rparr>)"

definition extract_city :: "string \<Rightarrow> stamp_dict \<Rightarrow> stamp_dict" where
  "extract_city text d =
     (case re_search city_pattern False text of
        None \<Rightarrow> d
      | Some m \<Rightarrow> d\<lparr>sd_city := Some (str_title m)\<rparr>)"

definition extract_stamp_type :: "string \<Rightarrow> stamp_dict \<Rightarrow> stamp_dict" where
  "extract_stamp_type text d =
     (if mentions_entry text then d\<lparr>sd_stamp_type := Some ''entry''\<rparr>
      else if mentions_exit text then d\<lparr>sd_stamp_type := Some ''exit''\<rparr>
      else d\<lparr>sd_stamp_type := Some ''unknown''\<rparr>)"

definition extract_airport_code :: "string \<Rightarrow> stamp_dict \<Rightarrow> stamp_dict" where
  "extract_airport_code text d =
     (case re_search airport_code_pattern False text of
        None \<Rightarrow> d
      | Some m \<Rightarrow> d\<lparr>sd_airport_code := Some m\<rparr>)"

definition parse_stamp_text :: "string \<Rightarrow> stamp_dict option" where
  "parse_stamp_text text =
     (let extracted_data =
            extract_airport_code text
              (extract_stamp_type text
                (extract_city text
                  (extract_country text
                    (extract_dates text empty_stamp_dict))))
      in if extracted_data \<noteq> empty_stamp_dict then Some extracted_data else None)"


subsection \<open>\<^verbatim>\<open>_detect_stamp_regions\<close>\<close>

text \<open>
  A region is the bounding rectangle \<open>(x, y, w, h)\<close> of a contour. Edge detection and contour
  extraction are OpenCV's; the function is modelled from the list of the bounding rectangles
  of the contours found, in the order of the loop. The widths and heights that reach the
  division are integers below 300 and 150, where the comparison of the floating-point quotient
  with 1.5 and 5.0 agrees with the comparison of the exact quotient.
\<close>

type_synonym rect = "int \<times> int \<times> int \<times> int"

fun detect_stamp_regions :: "rect list \<Rightarrow> rect list" where
  "detect_stamp_regions [] = []"
| "detect_stamp_regions ((x, y, w, h) # contours) =
     (if 50 < w \<and> w < 300 \<and> 30 < h \<and> h < 150
      then (let aspect_ratio = (of_int w :: rat) / of_int h
            in if 3 / 2 < aspect_ratio \<and> aspect_ratio < 5
               then (x, y, w, h) # detect_stamp_regions contours
               else detect_stamp_regions contours)
      else detect_stamp_regions contours)"

subsection \<open>\<^verbatim>\<open>_process_stamp\<close>\<close>

record PassportStamp =
  ps_text :: string
  ps_confidence :: rat
  ps_country :: "string option"
  ps_city :: "string option"
  ps_entry_date :: "datetime option"
  ps_exit_date :: "datetime option"
  ps_stamp_type :: "string option"
  ps_airport_code :: "string option"
  ps_raw_data :: "stamp_dict option"

text \<open>
  One entry of \<^verbatim>\<open>ocr_results\<close>: the stripped text of a recognition pass, the mean of its
  positive word confidences (on the scale 0 to 100) and the configuration of the pass.
  Confidences are exact numbers here.
\<close>

record ocr_result =
  or_text :: string
  or_confidence :: rat
  or_config :: string

definition OCR_CONFIDENCE_THRESHOLD :: rat where
  "OCR_CONFIDENCE_THRESHOLD = 7 / 10"

text \<open>
  \<^verbatim>\<open>max(ocr_results, key=lambda x: x['confidence'])\<close>: the first element is the best so far,
  and a later one replaces it only when its key is strictly greater.
\<close>

fun max_from :: "ocr_result \<Rightarrow> ocr_result list \<Rightarrow> ocr_result" where
  "max_from best [] = best"
| "max_from best (x # xs) =
     max_from (if or_confidence x > or_confidence best then x else best) xs"

definition dict_get :: "'a option option \<Rightarrow> 'a option" where
  \<comment> \<open>\<^verbatim>\<open>d.get(key)\<close> where the value may itself be \<^verbatim>\<open>None\<close>\<close>
  "dict_get v = (case v of None \<Rightarrow> None | Some x \<Rightarrow> x)"

text \<open>
  The part of \<^verbatim>\<open>_process_stamp\<close> behind the recognition passes (which are Tesseract's):
  from the list \<^verbatim>\<open>ocr_results\<close> on. The threshold is \<^verbatim>\<open>settings.OCR_CONFIDENCE_THRESHOLD\<close>.
  The constructor is not given the airport code, which stays in \<^verbatim>\<open>raw_data\<close>; an empty
  dictionary is falsy.
\<close>

definition process_stamp :: "rat \<Rightarrow> ocr_result list \<Rightarrow> PassportStamp option" where
  "process_stamp threshold ocr_results =
     (case ocr_results of
        [] \<Rightarrow> None
      | r # rs \<Rightarrow>
          (let best_result = max_from r rs
           in if or_confidence best_result < threshold * 100 then None
              else
                (case parse_stamp_text (or_text best_result) of
                   None \<Rightarrow> None
                 | Some stamp_data \<Rightarrow>
                     if stamp_data = empty_stamp_dict then None
                     else
                       Some \<lparr>ps_text = or_text best_result,
                             ps_confidence = or_confidence best_result / 100,
                             ps_country = sd_country stamp_data,
                             ps_city = sd_city stamp_data,
                             ps_entry_date = dict_get (sd_entry_date stamp_data),
                             ps_exit_date = dict_get (sd_exit_date stamp_data),
                             ps_stamp_type = sd_stamp_type stamp_data,
                             ps_airport_code = None,
                             ps_raw_data = Some stamp_data\<rparr>)))"

subsection \<open>\<^verbatim>\<open>process_passport_image\<close>\<close>

datatype error = ValueError | ValidationError

text \<open>
  What the function reads of an image that \<^verbatim>\<open>cv2.imread\<close> could load: the bounding
  rectangles of its contours, and what the recognition passes return on the crop of a region.
  An image that could not be loaded is \<open>None\<close>.
\<close>

record image =
  im_contours :: "rect list"
  im_ocr :: "rect \<Rightarrow> ocr_result list"

fun collect_stamps :: "rat \<Rightarrow> image \<Rightarrow> rect list \<Rightarrow> PassportStamp list" where
  "collect_stamps threshold im [] = []"
| "collect_stamps threshold im (region # regions) =
     (case process_stamp threshold (im_ocr im region) of
        Some stamp_data \<Rightarrow> stamp_data # collect_stamps threshold im regions
      | None \<Rightarrow> collect_stamps threshold im regions)"

definition process_passport_image :: "rat \<Rightarrow> image option \<Rightarrow> error + PassportStamp list" where
  "process_passport_image threshold loaded =
     (case loaded of
        None \<Rightarrow> Inl ValueError
      | Some im \<Rightarrow> Inr (collect_stamps threshold im (detect_stamp_regions (im_contours im))))"

subsection \<open>\<^verbatim>\<open>validate_stamp_data\<close>\<close>

definition str_falsy :: "string option \<Rightarrow> bool" where
  \<comment> \<open>\<^verbatim>\<open>not s\<close> for an optional string: \<^verbatim>\<open>None\<close> and the empty string\<close>
  "str_falsy s = (s = None \<or> s = Some [])"

text \<open>
  \<^verbatim>\<open>datetime.now()\<close> is read once for the entry date and once for the exit date; the two
  readings are the parameters \<open>now1\<close> and \<open>now2\<close>. A datetime is never falsy.
\<close>

definition validate_stamp_data :: "datetime \<Rightarrow> datetime \<Rightarrow> PassportStamp \<Rightarrow> bool" where
  "validate_stamp_data now1 now2 stamp =
     (if ps_entry_date stamp = None \<and> ps_exit_date stamp = None \<and> str_falsy (ps_country stamp)
      then False
      else if (case ps_entry_date stamp of None \<Rightarrow> False | Some d \<Rightarrow> dt_gt d now1) then False
      else if (case ps_exit_date stamp of None \<Rightarrow> False | Some d \<Rightarrow> dt_gt d now2) then False
      else if (case (ps_entry_date stamp, ps_exit_date stamp) of
                 (Some d, Some e) \<Rightarrow> dt_gt d e
               | _ \<Rightarrow> False) then False
      else True)"

section \<open>The email service (\<^verbatim>\<open>email_service.py\<close>)\<close>

record EmailMessage =
  em_message_id :: string
  em_subject :: string
  em_sender :: string
  em_received_at :: datetime
  em_body :: string
  em_parsed_data :: "(string \<times> string) list option"

text \<open>
  A value of \<^verbatim>\<open>extracted_data\<close>: \<^verbatim>\<open>matches[0] if len(matches) == 1 else matches\<close>, the
  single match as a string or else the list of all matches.
\<close>

datatype match_val = One string | Many "string list"

record extracted =
  ed_flight_number :: "match_val option"
  ed_departure_date :: "match_val option"
  ed_departure_time :: "match_val option"
  ed_airport_code :: "match_val option"
  ed_airline :: "match_val option"

definition empty_extracted :: extracted where
  "empty_extracted = \<lparr>ed_flight_number = None, ed_departure_date = None,
     ed_departure_time = None, ed_airport_code = None, ed_airline = None\<rparr>"

record FlightConfirmation =
  fc_email_id :: string
  fc_flight_number :: "string option"
  fc_departure_date :: "string option"
  fc_departure_time :: "string option"
  fc_arrival_date :: "string option"
  fc_arrival_time :: "string option"
  fc_departure_airport :: "string option"
  fc_arrival_airport :: "string option"
  fc_airline :: "string option"
  fc_passenger_name :: "string option"
  fc_booking_reference :: "string option"
  fc_raw_data :: "extracted option"

definition flight_number_pattern :: regex where
  \<comment> \<open>\<^verbatim>\<open>([A-Z]{2,3}\s?\d{3,4})\<close>\<close>
  "flight_number_pattern = seqs [Rep 2 1 Upper, Rep 0 1 Space, Rep 3 1 Digit]"

definition departure_date_pattern :: regex where
  \<comment> \<open>\<^verbatim>\<open>(\d{1,2}[/-]\d{1,2}[/-]\d{2,4})\<close>\<close>
  "departure_date_pattern = seqs [Rep 1 1 Digit, sep, Rep 1 1 Digit, sep, Rep 2 2 Digit]"

definition departure_time_pattern :: regex where
  \<comment> \<open>\<^verbatim>\<open>(\d{1,2}:\d{2}\s?(?:AM|PM)?)\<close>\<close>
  "departure_time_pattern =
     seqs [Rep 1 1 Digit, Lit CHR '':'', Rep 2 0 Digit, Rep 0 1 Space,
           Rep 0 1 (Alt (lits ''AM'') (lits ''PM''))]"

definition airline_pattern :: regex where
  "airline_pattern =
     alts (map lits [''American'', ''Delta'', ''United'', ''Southwest'', ''JetBlue'', ''Alaska'',
                     ''Spirit'', ''Frontier''])"

definition record_matches :: "string list \<Rightarrow> match_val option" where
  "record_matches matches =
     (case matches of [] \<Rightarrow> None | [m] \<Rightarrow> Some (One m) | _ \<Rightarrow> Some (Many matches))"

definition extract_fields :: "string \<Rightarrow> extracted" where
  \<comment> \<open>the loop over \<^verbatim>\<open>patterns.items()\<close>, every pattern with \<^verbatim>\<open>re.IGNORECASE\<close> on the body\<close>
  "extract_fields body =
     \<lparr>ed_flight_number = record_matches (re_findall flight_number_pattern True body),
      ed_departure_date = record_matches (re_findall departure_date_pattern True body),
      ed_departure_time = record_matches (re_findall departure_time_pattern True body),
      ed_airport_code = record_matches (re_findall airport_code_pattern True body),
      ed_airline = record_matches (re_findall airline_pattern True body)\<rparr>"

definition confirmation_keywords :: "string list" where
  "confirmation_keywords =
     [''flight confirmation'', ''booking confirmation'', ''itinerary'',
      ''flight details'', ''ticket confirmation'', ''boarding pass'']"

definition is_confirmation :: "EmailMessage \<Rightarrow> bool" where
  "is_confirmation email =
     list_ex (\<lambda>keyword. str_in keyword (str_lower (em_subject email))
                        \<or> str_in keyword (str_lower (em_body email)))
             confirmation_keywords"

text \<open>
  The fields of \<^verbatim>\<open>FlightConfirmation\<close> are declared \<^verbatim>\<open>Optional[str]\<close>: the model's
  validation takes \<^verbatim>\<open>None\<close> and a string, and raises \<^verbatim>\<open>ValidationError\<close> on a list.
  The keyword argument \<^verbatim>\<open>airport_code\<close> names no field of the model and is ignored.
\<close>

definition optional_str :: "match_val option \<Rightarrow> error + string option" where
  "optional_str v =
     (case v of None \<Rightarrow> Inr None | Some (One s) \<Rightarrow> Inr (Some s) | Some (Many ms) \<Rightarrow> Inl ValidationError)"

definition make_FlightConfirmation ::
    "string \<Rightarrow> extracted \<Rightarrow> error + FlightConfirmation" where
  "make_FlightConfirmation message_id extracted_data =
     (case (optional_str (ed_flight_number extracted_data),
            optional_str (ed_departure_date extracted_data),
            optional_str (ed_departure_time extracted_data),
            optional_str (ed_airline extracted_data)) of
        (Inr fn, Inr dd, Inr dt, Inr al) \<Rightarrow>
          Inr \<lparr>fc_email_id = message_id, fc_flight_number = fn, fc_departure_date = dd,
               fc_departure_time = dt, fc_arrival_date = None, fc_arrival_time = None,
               fc_departure_airport = None, fc_arrival_airport = None, fc_airline = al,
               fc_passenger_name = None, fc_booking_reference = None,
               fc_raw_data = Some extracted_data\<rparr>
      | _ \<Rightarrow> Inl ValidationError)"

definition parse_flight_confirmation :: "EmailMessage \<Rightarrow> error + FlightConfirmation option" where
  "parse_flight_confirmation email =
     (let extracted_data = extract_fields (em_body email)
      in if is_confirmation email \<and> extracted_data \<noteq> empty_extracted
         then (case make_FlightConfirmation (em_message_id email) extracted_data of
                 Inl e \<Rightarrow> Inl e
               | Inr c \<Rightarrow> Inr (Some c))
         else Inr None)"


section \<open>Sample inputs and the specification's wording\<close>

definition sample_email :: "string \<Rightarrow> string \<Rightarrow> EmailMessage" where
  "sample_email subject body =
     \<lparr>em_message_id = ''msg-1'', em_subject = subject, em_sender = ''noreply@example.com'',
      em_received_at = mk_date 2023 3 1, em_body = body, em_parsed_data = None\<rparr>"

definition sample_stamp ::
    "datetime option \<Rightarrow> datetime option \<Rightarrow> string option \<Rightarrow> PassportStamp" where
  "sample_stamp entry exit country =
     \<lparr>ps_text = ''stamp'', ps_confidence = 9 / 10, ps_country = country, ps_city = None,
      ps_entry_date = entry, ps_exit_date = exit, ps_stamp_type = Some ''unknown'',
      ps_airport_code = None, ps_raw_data = None\<rparr>"

definition sample_result :: "string \<Rightarrow> rat \<Rightarrow> ocr_result" where
  "sample_result text conf = \<lparr>or_text = text, or_confidence = conf, or_config = ''--psm 6''\<rparr>"

definition sample_image :: "rect list \<Rightarrow> image" where
  "sample_image contours = \<lparr>im_contours = contours, im_ocr = (\<lambda>region. [])\<rparr>"

text \<open>
  The size and shape filter as the specification words it, with closed intervals, and as the
  comparisons of \<^verbatim>\<open>_detect_stamp_regions\<close> have it, with strict bounds.
\<close>

definition spec_region_ok :: "rect \<Rightarrow> bool" where
  "spec_region_ok r =
     (case r of (x, y, w, h) \<Rightarrow>
        50 \<le> w \<and> w \<le> 300 \<and> 30 \<le> h \<and> h \<le> 150
        \<and> 3 / 2 \<le> (of_int w :: rat) / of_int h \<and> (of_int w :: rat) / of_int h \<le> 5)"

definition region_kept :: "rect \<Rightarrow> bool" where
  "region_kept r =
     (case r of (x, y, w, h) \<Rightarrow>
        50 < w \<and> w < 300 \<and> 30 < h \<and> h < 150
        \<and> 3 / 2 < (of_int w :: rat) / of_int h \<and> (of_int w :: rat) / of_int h < 5)"

definition is_list :: "match_val option \<Rightarrow> bool" where
  "is_list v = (case v of Some (Many ms) \<Rightarrow> True | _ \<Rightarrow> False)"

section \<open>Evaluations shared by the results below\<close>

lemma scenario_parse:
  "parse_stamp_text ''ENTRY USA LOS ANGELES 03/14/2023 LAX'' =
     Some \<lparr>sd_entry_date = Some (Some (mk_date 2023 3 14)), sd_exit_date = None,
           sd_country = None, sd_city = None, sd_stamp_type = Some ''entry'',
           sd_airport_code = Some ''ENT''\<rparr>"
  by code_simp

lemma scenario_email_parse:
  "parse_flight_confirmation
     (sample_email ''Your Delta Flight Confirmation'' ''DL 1234 03/14/2023'') =
     Inr (Some \<lparr>fc_email_id = ''msg-1'', fc_flight_number = Some ''DL 1234'',
          fc_departure_date = Some ''03/14/2023'', fc_departure_time = None,
          fc_arrival_date = None, fc_arrival_time = None,
          fc_departure_airport = None, fc_arrival_airport = None,
          fc_airline = None, fc_passenger_name = None, fc_booking_reference = None,
          fc_raw_data =
            Some \<lparr>ed_flight_number = Some (One ''DL 1234''),
                  ed_departure_date = Some (One ''03/14/2023''),
                  ed_departure_time = None, ed_airport_code = None, ed_airline = None\<rparr>\<rparr>)"
  by code_simp

lemma scenario_email_parse_delta:
  "parse_flight_confirmation
     (sample_email ''Your Delta Flight Confirmation'' ''Delta DL 1234 03/14/2023'') =
     Inr (Some \<lparr>fc_email_id = ''msg-1'', fc_flight_number = Some ''DL 1234'',
          fc_departure_date = Some ''03/14/2023'', fc_departure_time = None,
          fc_arrival_date = None, fc_arrival_time = None,
          fc_departure_airport = None, fc_arrival_airport = None,
          fc_airline = Some ''Delta'', fc_passenger_name = None, fc_booking_reference = None,
          fc_raw_data =
            Some \<lparr>ed_flight_number = Some (One ''DL 1234''),
                  ed_departure_date = Some (One ''03/14/2023''),
                  ed_departure_time = None, ed_airport_code = Some (One ''Del''),
                  ed_airline = Some (One ''Delta'')\<rparr>\<rparr>)"
  by code_simp

lemma boarding_pass_parse:
  "parse_flight_confirmation (sample_email ''Boarding pass'' ''LAX'') =
     Inr (Some \<lparr>fc_email_id = ''msg-1'', fc_flight_number = None,
          fc_departure_date = None, fc_departure_time = None,
          fc_arrival_date = None, fc_arrival_time = None,
          fc_departure_airport = None, fc_arrival_airport = None,
          fc_airline = None, fc_passenger_name = None, fc_booking_reference = None,
          fc_raw_data =
            Some \<lparr>ed_flight_number = None, ed_departure_date = None,
                  ed_departure_time = None, ed_airport_code = Some (One ''LAX''),
                  ed_airline = None\<rparr>\<rparr>)"
  by code_simp

lemma scenario_subject_in:
  "str_in ''flight confirmation'' (str_lower ''Your Delta Flight Confirmation'')"
  by code_simp

lemma scenario_body_in:
  "str_in ''DL 1234'' ''DL 1234 03/14/2023'' \<and> str_in ''03/14/2023'' ''DL 1234 03/14/2023''"
  by code_simp

section \<open>The region detector\<close>

lemma set_detect_stamp_regions:
  "set (detect_stamp_regions contours) = {r \<in> set contours. region_kept r}"
  by (induction contours rule: detect_stamp_regions.induct)
     (auto simp: region_kept_def Let_def)

text \<open>
  C4 (as amended). The bounding box of a contour is in the output of the region detector if
  and only if its width is strictly between 50 and 300, its height strictly between 30 and
  150, and its aspect ratio width/height strictly between 1.5 and 5.0; a box of 40 by 20 is
  never in the output.
\<close>

theorem detect_stamp_regions_iff:
  "(r \<in> set (detect_stamp_regions contours) \<longleftrightarrow> r \<in> set contours \<and> region_kept r)
   \<and> (x, y, 40, 20) \<notin> set (detect_stamp_regions contours)"
  by (simp add: set_detect_stamp_regions region_kept_def)

theorem detect_stamp_regions_iff_witness:
  "(1, 2, 100, 50) \<in> set (detect_stamp_regions [(0, 0, 40, 20), (1, 2, 100, 50)])
   \<and> (0, 0, 40, 20) \<notin> set (detect_stamp_regions [(0, 0, 40, 20), (1, 2, 100, 50)])"
  using detect_stamp_regions_iff [of "(1, 2, 100, 50)" "[(0, 0, 40, 20), (1, 2, 100, 50)]" 0 0]
  by (simp add: region_kept_def)

text \<open>
  C4 as stated fails on the boundary: a box of width 50 and height 31 lies in the closed
  intervals of the specification and is not in the output.
\<close>

theorem detect_stamp_regions_boundary_counterexample:
  "spec_region_ok (0, 0, 50, 31) \<and> (0, 0, 50, 31) \<in> set [(0, 0, 50, 31)]
   \<and> (0, 0, 50, 31) \<notin> set (detect_stamp_regions [(0, 0, 50, 31)])"
  by (simp add: spec_region_ok_def)

section \<open>The field extractor\<close>

text \<open>
  C1 (as amended). For the text ENTRY USA LOS ANGELES 03/14/2023 LAX the field extractor yields
  a candidate with entry date 2023-03-14 and stamp type entry; it has no country (USA is not
  in the vocabulary), no city (the text has no capital followed by small letters), and its
  airport code is ENT, the first three consecutive capitals of the text.
\<close>

theorem parse_stamp_text_scenario:
  "parse_stamp_text ''ENTRY USA LOS ANGELES 03/14/2023 LAX'' =
     Some \<lparr>sd_entry_date = Some (Some (mk_date 2023 3 14)), sd_exit_date = None,
           sd_country = None, sd_city = None, sd_stamp_type = Some ''entry'',
           sd_airport_code = Some ''ENT''\<rparr>"
  by (rule scenario_parse)

text \<open>
  C1 as stated fails: on that text the candidate has neither the country United States nor a
  city, and its airport code is not LAX.
\<close>

theorem parse_stamp_text_scenario_counterexample:
  "map_option sd_country (parse_stamp_text ''ENTRY USA LOS ANGELES 03/14/2023 LAX'') = Some None
   \<and> map_option sd_city (parse_stamp_text ''ENTRY USA LOS ANGELES 03/14/2023 LAX'') = Some None
   \<and> map_option sd_airport_code (parse_stamp_text ''ENTRY USA LOS ANGELES 03/14/2023 LAX'')
       = Some (Some ''ENT'')
   \<and> ''ENT'' \<noteq> ''LAX''"
  by (simp add: scenario_parse)

lemma sd_stamp_type_extract:
  "sd_stamp_type (extract_airport_code text (extract_stamp_type text d)) \<noteq> None"
  by (simp add: extract_airport_code_def extract_stamp_type_def split: option.splits)

lemma parse_stamp_text_never_none: "parse_stamp_text text \<noteq> None"
proof -
  let ?d = "extract_airport_code text (extract_stamp_type text
             (extract_city text (extract_country text (extract_dates text empty_stamp_dict))))"
  have "sd_stamp_type ?d \<noteq> None" by (rule sd_stamp_type_extract)
  moreover have "sd_stamp_type empty_stamp_dict = None" by (simp add: empty_stamp_dict_def)
  ultimately have "?d \<noteq> empty_stamp_dict" by metis
  then show ?thesis by (simp add: parse_stamp_text_def Let_def)
qed

lemma parse_stamp_text_nonempty: "parse_stamp_text text = Some d \<Longrightarrow> d \<noteq> empty_stamp_dict"
  by (auto simp: parse_stamp_text_def Let_def split: if_splits)

text \<open>
  C2. The text xyz has no date, no country, no city, no direction word and no airport code,
  and the field extractor still returns a candidate, whose only entry is the stamp type
  unknown. (By \<open>parse_stamp_text_never_none\<close> no text at all gives none.)
\<close>

theorem parse_stamp_text_no_fields:
  "parse_stamp_text ''xyz'' =
     Some \<lparr>sd_entry_date = None, sd_exit_date = None, sd_country = None, sd_city = None,
           sd_stamp_type = Some ''unknown'', sd_airport_code = None\<rparr>"
  by code_simp

section \<open>The candidate validator\<close>

text \<open>
  C5. The validator returns false exactly when the candidate has no entry date, no exit date
  and no country (none, or the empty string), or its entry date or its exit date is after the
  clock reading it is compared with, or both dates are present and the entry date is after
  the exit date; otherwise it returns true.
\<close>

theorem validate_stamp_data_rejects_iff:
  "validate_stamp_data now1 now2 stamp = False \<longleftrightarrow>
     (ps_entry_date stamp = None \<and> ps_exit_date stamp = None \<and> str_falsy (ps_country stamp))
     \<or> (\<exists>d. ps_entry_date stamp = Some d \<and> dt_gt d now1)
     \<or> (\<exists>d. ps_exit_date stamp = Some d \<and> dt_gt d now2)
     \<or> (\<exists>d e. ps_entry_date stamp = Some d \<and> ps_exit_date stamp = Some e \<and> dt_gt d e)"
  by (auto simp: validate_stamp_data_def split: option.splits)

theorem validate_stamp_data_rejects_iff_witness:
  "validate_stamp_data (mk_date 2024 1 1) (mk_date 2024 1 1)
     (sample_stamp (Some (mk_date 2023 3 14)) (Some (mk_date 2023 3 10)) (Some ''France''))
   = False
   \<and> validate_stamp_data (mk_date 2024 1 1) (mk_date 2024 1 1)
     (sample_stamp (Some (mk_date 2023 3 10)) (Some (mk_date 2023 3 14)) (Some ''France''))
   = True"
proof -
  let ?now = "mk_date 2024 1 1"
  let ?a = "mk_date 2023 3 14" and ?b = "mk_date 2023 3 10"
  have ab: "dt_gt ?a ?b" by code_simp
  have ba: "\<not> dt_gt ?b ?a" by code_simp
  have an: "\<not> dt_gt ?a ?now" by code_simp
  have bn: "\<not> dt_gt ?b ?now" by code_simp
  have "validate_stamp_data ?now ?now (sample_stamp (Some ?a) (Some ?b) (Some ''France'')) = False"
    using validate_stamp_data_rejects_iff
            [of ?now ?now "sample_stamp (Some ?a) (Some ?b) (Some ''France'')"] ab
    by (simp add: sample_stamp_def)
  moreover
  have "validate_stamp_data ?now ?now (sample_stamp (Some ?b) (Some ?a) (Some ''France'')) \<noteq> False"
    using validate_stamp_data_rejects_iff
            [of ?now ?now "sample_stamp (Some ?b) (Some ?a) (Some ''France'')"] ba an bn
    by (simp add: sample_stamp_def str_falsy_def)
  ultimately show ?thesis by simp
qed

section \<open>Selection of the recognition result\<close>

lemma max_from_mem: "max_from b xs \<in> set (b # xs)"
  by (induction b xs rule: max_from.induct) auto

lemma max_from_ge_acc: "or_confidence b \<le> or_confidence (max_from b xs)"
proof (induction b xs rule: max_from.induct)
  case (1 best)
  show ?case by simp
next
  case (2 best x xs)
  then show ?case by (auto split: if_splits)
qed

lemma max_from_ge: "r \<in> set (b # xs) \<Longrightarrow> or_confidence r \<le> or_confidence (max_from b xs)"
proof (induction b xs rule: max_from.induct)
  case (1 best)
  then show ?case by simp
next
  case (2 best x xs)
  let ?b = "if or_confidence x > or_confidence best then x else best"
  have acc: "or_confidence ?b \<le> or_confidence (max_from ?b xs)" by (rule max_from_ge_acc)
  from "2.prems" consider "r = best" | "r = x" | "r \<in> set xs" by auto
  then show ?case
  proof cases
    case 1
    with acc show ?thesis by (auto split: if_splits)
  next
    case 2
    with acc show ?thesis by (auto split: if_splits)
  next
    case 3
    then have "r \<in> set (?b # xs)" by simp
    from "2.IH" [OF this] show ?thesis by simp
  qed
qed

text \<open>
  C6. Of the recognition results of a region, the one selected is a result of highest
  confidence; when that confidence (on the scale 0 to 100) is below the threshold times 100,
  no candidate is produced; a candidate that is produced carries the text and the confidence
  of the selected result, which is at least the threshold.
\<close>

theorem process_stamp_selects_best:
  assumes "ocr_results = r # rs"
  shows "max_from r rs \<in> set ocr_results
         \<and> (\<forall>x \<in> set ocr_results. or_confidence x \<le> or_confidence (max_from r rs))
         \<and> (or_confidence (max_from r rs) < threshold * 100 \<longrightarrow>
              process_stamp threshold ocr_results = None)
         \<and> (\<forall>stamp. process_stamp threshold ocr_results = Some stamp \<longrightarrow>
              ps_text stamp = or_text (max_from r rs)
              \<and> ps_confidence stamp = or_confidence (max_from r rs) / 100
              \<and> threshold \<le> ps_confidence stamp)"
  using assms max_from_mem [of r rs] max_from_ge [of _ r rs]
  by (auto simp: process_stamp_def Let_def split: option.splits)

theorem process_stamp_selects_best_witness:
  "process_stamp OCR_CONFIDENCE_THRESHOLD
     [sample_result ''ENTRY 1/2/23'' 65, sample_result ''EXIT 1/2/23'' 60] = None
   \<and> map_option ps_text
        (process_stamp OCR_CONFIDENCE_THRESHOLD
           [sample_result ''ENTRY 1/2/23'' 65, sample_result ''EXIT 1/2/23'' 85])
       = Some ''EXIT 1/2/23''"
proof -
  let ?a = "sample_result ''ENTRY 1/2/23'' 65"
  let ?b = "sample_result ''EXIT 1/2/23'' 60"
  let ?c = "sample_result ''EXIT 1/2/23'' 85"
  have ab: "max_from ?a [?b] = ?a" by (simp add: sample_result_def)
  have ac: "max_from ?a [?c] = ?c" by (simp add: sample_result_def)
  have low: "or_confidence (max_from ?a [?b]) < OCR_CONFIDENCE_THRESHOLD * 100"
    by (simp add: ab) (simp add: sample_result_def OCR_CONFIDENCE_THRESHOLD_def)
  have first: "process_stamp OCR_CONFIDENCE_THRESHOLD [?a, ?b] = None"
    using process_stamp_selects_best [of "[?a, ?b]" ?a "[?b]" OCR_CONFIDENCE_THRESHOLD] low
    by simp
  obtain d where d: "parse_stamp_text ''EXIT 1/2/23'' = Some d"
    using parse_stamp_text_never_none [of "''EXIT 1/2/23''"] by auto
  have ne: "d \<noteq> empty_stamp_dict" using d by (rule parse_stamp_text_nonempty)
  have "process_stamp OCR_CONFIDENCE_THRESHOLD [?a, ?c] \<noteq> None"
    using d ne
    by (simp add: process_stamp_def ac Let_def)
       (simp add: sample_result_def OCR_CONFIDENCE_THRESHOLD_def)
  then obtain stamp where st: "process_stamp OCR_CONFIDENCE_THRESHOLD [?a, ?c] = Some stamp"
    by auto
  have "ps_text stamp = or_text (max_from ?a [?c])"
    using process_stamp_selects_best [of "[?a, ?c]" ?a "[?c]" OCR_CONFIDENCE_THRESHOLD] st
    by simp
  then have "ps_text stamp = ''EXIT 1/2/23''" by (simp add: ac) (simp add: sample_result_def)
  with first st show ?thesis by simp
qed

section \<open>Processing a document\<close>

text \<open>
  C8. For an image that could be loaded and in which the region detector finds no region,
  \<open>process_passport_image\<close> returns the empty list, and no error.
\<close>

theorem process_passport_image_no_regions:
  "detect_stamp_regions (im_contours im) = [] \<Longrightarrow>
     process_passport_image threshold (Some im) = Inr []"
  by (simp add: process_passport_image_def)

theorem process_passport_image_no_regions_witness:
  "process_passport_image OCR_CONFIDENCE_THRESHOLD (Some (sample_image [(0, 0, 40, 20)]))
     = Inr []"
proof -
  have "detect_stamp_regions (im_contours (sample_image [(0, 0, 40, 20)])) = []"
    by (simp add: sample_image_def)
  then show ?thesis by (rule process_passport_image_no_regions)
qed

section \<open>The email parser\<close>

lemma scenario_is_confirmation:
  "is_confirmation (sample_email ''Your Delta Flight Confirmation'' body)"
  using scenario_subject_in
  by (simp add: is_confirmation_def sample_email_def confirmation_keywords_def)

text \<open>
  C3 (as amended). An email whose subject is Your Delta Flight Confirmation is classified as
  a confirmation whatever its body. With the body DL 1234 03/14/2023 the parser returns a
  candidate whose flight number is DL 1234 and whose airline is none: the field patterns are
  matched against the body only. With the body Delta DL 1234 03/14/2023, which names the
  airline, the flight number is DL 1234 and the airline is Delta.
\<close>

theorem parse_flight_confirmation_scenario:
  "is_confirmation (sample_email ''Your Delta Flight Confirmation'' body)
   \<and> map_sum id (map_option (\<lambda>c. (fc_flight_number c, fc_airline c)))
        (parse_flight_confirmation
           (sample_email ''Your Delta Flight Confirmation'' ''DL 1234 03/14/2023''))
       = Inr (Some (Some ''DL 1234'', None))
   \<and> map_sum id (map_option (\<lambda>c. (fc_flight_number c, fc_airline c)))
        (parse_flight_confirmation
           (sample_email ''Your Delta Flight Confirmation'' ''Delta DL 1234 03/14/2023''))
       = Inr (Some (Some ''DL 1234'', Some ''Delta''))"
  by (simp add: scenario_is_confirmation scenario_email_parse scenario_email_parse_delta)

text \<open>
  C3 as stated fails: the body DL 1234 03/14/2023 contains both texts, and the airline of the
  candidate returned for it is none, not Delta.
\<close>

theorem parse_flight_confirmation_scenario_counterexample:
  "str_in ''DL 1234'' ''DL 1234 03/14/2023'' \<and> str_in ''03/14/2023'' ''DL 1234 03/14/2023''
   \<and> map_sum id (map_option fc_airline)
        (parse_flight_confirmation
           (sample_email ''Your Delta Flight Confirmation'' ''DL 1234 03/14/2023''))
       = Inr (Some None)"
  using scenario_body_in by (simp add: scenario_email_parse)

lemma record_matches_None: "record_matches ms = None \<longleftrightarrow> ms = []"
  by (simp add: record_matches_def split: list.splits)

lemma extract_fields_empty_iff:
  "extract_fields body = empty_extracted \<longleftrightarrow>
     re_findall flight_number_pattern True body = []
     \<and> re_findall departure_date_pattern True body = []
     \<and> re_findall departure_time_pattern True body = []
     \<and> re_findall airport_code_pattern True body = []
     \<and> re_findall airline_pattern True body = []"
  by (simp add: extract_fields_def empty_extracted_def record_matches_None)

lemma make_FlightConfirmation_ok_iff:
  "(\<exists>c. make_FlightConfirmation mid d = Inr c) \<longleftrightarrow>
     \<not> is_list (ed_flight_number d) \<and> \<not> is_list (ed_departure_date d)
     \<and> \<not> is_list (ed_departure_time d) \<and> \<not> is_list (ed_airline d)"
  by (auto simp: make_FlightConfirmation_def optional_str_def is_list_def
           split: option.splits match_val.splits)

lemma parse_flight_confirmation_returns_iff:
  "(\<exists>c. parse_flight_confirmation email = Inr (Some c)) \<longleftrightarrow>
     is_confirmation email \<and> extract_fields (em_body email) \<noteq> empty_extracted
     \<and> \<not> is_list (ed_flight_number (extract_fields (em_body email)))
     \<and> \<not> is_list (ed_departure_date (extract_fields (em_body email)))
     \<and> \<not> is_list (ed_departure_time (extract_fields (em_body email)))
     \<and> \<not> is_list (ed_airline (extract_fields (em_body email)))"
proof -
  have "(\<exists>c. parse_flight_confirmation email = Inr (Some c)) \<longleftrightarrow>
          is_confirmation email \<and> extract_fields (em_body email) \<noteq> empty_extracted
          \<and> (\<exists>c. make_FlightConfirmation (em_message_id email)
                     (extract_fields (em_body email)) = Inr c)"
    by (auto simp: parse_flight_confirmation_def Let_def split: sum.splits)
  then show ?thesis by (simp only: make_FlightConfirmation_ok_iff)
qed

lemma parse_flight_confirmation_none_iff:
  "parse_flight_confirmation email = Inr None \<longleftrightarrow>
     \<not> (is_confirmation email \<and> extract_fields (em_body email) \<noteq> empty_extracted)"
  by (auto simp: parse_flight_confirmation_def Let_def split: sum.splits)

text \<open>
  C7. The email with subject Your itinerary and body DL 1234 DL 5678 contains a keyword and
  its body matches the flight number pattern, and the parser returns neither a candidate nor
  none: the two matches are stored as a list, which the string field of the candidate
  refuses.
\<close>

theorem parse_flight_confirmation_two_flights:
  "is_confirmation (sample_email ''Your itinerary'' ''DL 1234 DL 5678'')
   \<and> re_findall flight_number_pattern True ''DL 1234 DL 5678'' = [''DL 1234'', ''DL 5678'']
   \<and> parse_flight_confirmation (sample_email ''Your itinerary'' ''DL 1234 DL 5678'')
       = Inl ValidationError"
  by code_simp

text \<open>
  C9. The result of the parser is determined by the email; indeed by its message id, its
  subject and its body. Two runs on the same email give the same candidate, the same none or
  the same error.
\<close>

theorem parse_flight_confirmation_deterministic:
  "em_message_id e1 = em_message_id e2 \<Longrightarrow> em_subject e1 = em_subject e2 \<Longrightarrow>
   em_body e1 = em_body e2 \<Longrightarrow> parse_flight_confirmation e1 = parse_flight_confirmation e2"
  by (auto simp: parse_flight_confirmation_def is_confirmation_def Let_def)

theorem parse_flight_confirmation_deterministic_witness:
  "parse_flight_confirmation
     ((sample_email ''Boarding pass'' ''LAX'')\<lparr>em_sender := ''other@example.com''\<rparr>)
   = parse_flight_confirmation (sample_email ''Boarding pass'' ''LAX'')"
  by (rule parse_flight_confirmation_deterministic) (simp_all add: sample_email_def)

text \<open>
  C10. A candidate returned by the parser has no departure airport, no arrival airport, no
  arrival date and no arrival time; the airport codes found in the body are in its raw field
  map only.
\<close>

theorem parse_flight_confirmation_unset_fields:
  "parse_flight_confirmation email = Inr (Some c) \<Longrightarrow>
     fc_departure_airport c = None \<and> fc_arrival_airport c = None
     \<and> fc_arrival_date c = None \<and> fc_arrival_time c = None
     \<and> map_option ed_airport_code (fc_raw_data c)
         = Some (record_matches (re_findall airport_code_pattern True (em_body email)))"
  by (auto simp: parse_flight_confirmation_def make_FlightConfirmation_def Let_def
                 extract_fields_def
           split: if_splits sum.splits)

theorem parse_flight_confirmation_unset_fields_witness:
  "(\<exists>c. parse_flight_confirmation (sample_email ''Boarding pass'' ''LAX'') = Inr (Some c)
        \<and> fc_departure_airport c = None \<and> fc_arrival_airport c = None
        \<and> fc_arrival_date c = None \<and> fc_arrival_time c = None
        \<and> map_option ed_airport_code (fc_raw_data c) = Some (Some (One ''LAX'')))"
proof -
  obtain c where c: "parse_flight_confirmation (sample_email ''Boarding pass'' ''LAX'') = Inr (Some c)"
    using boarding_pass_parse by simp
  have raw: "map_option ed_airport_code (fc_raw_data c) = Some (Some (One ''LAX''))"
    using c by (simp add: boarding_pass_parse) auto
  from parse_flight_confirmation_unset_fields [OF c] raw c show ?thesis by blast
qed

end
